theory Spec2Isabelle
  imports Complex_Main "HOL-Library.Log_Nat" "HOL-Library.AList"
begin

section \<open>JavaScript values\<close>

text \<open>
  The form renderer (\<^verbatim>\<open>src/fragments/formRenderer.tsx\<close>) works on JSON field
  descriptors and on the values typed into the form. A descriptor's \<^verbatim>\<open>value\<close> has the
  type \<^verbatim>\<open>string | number | boolean\<close> and may be absent; an absent property
  (\<^verbatim>\<open>undefined\<close>) is \<open>None\<close> of an option type.

  A string is the list of its code units; the model covers code units below 256.
  A number is an IEEE double: \<open>NaN\<close>, the two infinities, or a finite value carried as
  the rational it denotes (the two zeros are one value, which no operation used here
  tells apart).
\<close>

datatype jsnum = NaN | PosInf | NegInf | Fin rat

datatype jsval = Str string | Num jsnum | Bool bool

text \<open>ToBoolean, as used by \<^verbatim>\<open>!!x\<close>, \<^verbatim>\<open>x || y\<close>, \<^verbatim>\<open>x && y\<close> and \<^verbatim>\<open>c ? a : b\<close>.\<close>

fun truthy_val :: "jsval \<Rightarrow> bool" where
  "truthy_val (Str s) = (s \<noteq> [])"
| "truthy_val (Num n) = (n \<noteq> NaN \<and> n \<noteq> Fin 0)"
| "truthy_val (Bool b) = b"

fun truthy :: "jsval option \<Rightarrow> bool" where
  "truthy None = False"
| "truthy (Some v) = truthy_val v"

text \<open>\<^verbatim>\<open>x || d\<close> for a possibly absent \<open>x\<close> and a default \<open>d\<close>.\<close>

fun js_or :: "jsval option \<Rightarrow> jsval \<Rightarrow> jsval" where
  "js_or None d = d"
| "js_or (Some v) d = (if truthy_val v then v else d)"

subsection \<open>Strings to numbers\<close>

text \<open>
  White space and line terminators, as \<^verbatim>\<open>String.prototype.trim\<close>, the regular
  expression class \<^verbatim>\<open>\s\<close> and \<^verbatim>\<open>Number\<close> read them: tab, line feed, vertical tab,
  form feed, carriage return, space and no-break space (those below 256).
\<close>

definition isWhiteSpace :: "char \<Rightarrow> bool" where
  "isWhiteSpace c = (c \<in> set [CHR 0x09, CHR 0x0A, CHR 0x0B, CHR 0x0C, CHR 0x0D, CHR 0x20, CHR 0xA0])"

definition trim :: "string \<Rightarrow> string" where
  "trim s = rev (dropWhile isWhiteSpace (rev (dropWhile isWhiteSpace s)))"

definition digitOf :: "char \<Rightarrow> int option" where
  "digitOf c = (let n = (of_char c :: int) in
     if 48 \<le> n \<and> n \<le> 57 then Some (n - 48)
     else if 97 \<le> n \<and> n \<le> 102 then Some (n - 87)
     else if 65 \<le> n \<and> n \<le> 70 then Some (n - 55)
     else None)"

definition isDigit :: "int \<Rightarrow> char \<Rightarrow> bool" where
  "isDigit base c = (case digitOf c of None \<Rightarrow> False | Some d \<Rightarrow> d < base)"

definition digitsValue :: "int \<Rightarrow> string \<Rightarrow> int" where
  "digitsValue base ds = foldl (\<lambda>acc c. acc * base + (case digitOf c of None \<Rightarrow> 0 | Some d \<Rightarrow> d)) 0 ds"

definition unsignedInteger :: "int \<Rightarrow> string \<Rightarrow> int option" where
  "unsignedInteger base ds =
     (if ds \<noteq> [] \<and> list_all (isDigit base) ds then Some (digitsValue base ds) else None)"

text \<open>The exponent part \<^verbatim>\<open>e[+-]?digits\<close> of a decimal literal; no exponent is exponent 0.\<close>

definition signedInteger :: "string \<Rightarrow> int option" where
  "signedInteger ds = (case ds of
       [] \<Rightarrow> None
     | c # r \<Rightarrow>
         if c = CHR ''+'' then unsignedInteger 10 r
         else if c = CHR ''-'' then map_option uminus (unsignedInteger 10 r)
         else unsignedInteger 10 ds)"

definition exponentPart :: "string \<Rightarrow> int option" where
  "exponentPart r = (case r of
       [] \<Rightarrow> Some 0
     | c # ds \<Rightarrow> if c = CHR ''e'' \<or> c = CHR ''E'' then signedInteger ds else None)"

text \<open>
  The mathematical value of \<^verbatim>\<open>digits [. digits?] [exponent]\<close> or
  \<^verbatim>\<open>. digits [exponent]\<close>; \<open>None\<close> when the text is neither.
\<close>

definition unsignedDecimal :: "string \<Rightarrow> rat option" where
  "unsignedDecimal s =
     (let ip = takeWhile (isDigit 10) s;
          r1 = dropWhile (isDigit 10) s;
          dot = (r1 \<noteq> [] \<and> hd r1 = CHR ''.'');
          fp = (if dot then takeWhile (isDigit 10) (tl r1) else []);
          r2 = (if dot then dropWhile (isDigit 10) (tl r1) else r1)
      in if ip = [] \<and> fp = [] then None
         else (case exponentPart r2 of
                 None \<Rightarrow> None
               | Some e \<Rightarrow> Some (of_int (digitsValue 10 (ip @ fp)) * power_int 10 (e - int (length fp)))))"

text \<open>\<^verbatim>\<open>0x\<close>, \<^verbatim>\<open>0o\<close> and \<^verbatim>\<open>0b\<close> literals (no sign).\<close>

definition nonDecimal :: "string \<Rightarrow> int option" where
  "nonDecimal s = (case s of
       c0 # c1 # ds \<Rightarrow>
         if c0 \<noteq> CHR ''0'' then None
         else if c1 = CHR ''x'' \<or> c1 = CHR ''X'' then unsignedInteger 16 ds
         else if c1 = CHR ''o'' \<or> c1 = CHR ''O'' then unsignedInteger 8 ds
         else if c1 = CHR ''b'' \<or> c1 = CHR ''B'' then unsignedInteger 2 ds
         else None
     | _ \<Rightarrow> None)"

text \<open>Rounding a rational to the nearest double, ties to even; overflow gives an infinity.\<close>

definition roundTiesToEven :: "rat \<Rightarrow> int" where
  "roundTiesToEven q =
     (let f = \<lfloor>q\<rfloor>; d = q - of_int f
      in if d < 1 / 2 then f else if 1 / 2 < d then f + 1 else if even f then f else f + 1)"

definition floorLog2 :: "rat \<Rightarrow> int" where
  "floorLog2 a = (let (n, d) = quotient_of a; k = bitlen n - bitlen d
                  in if power_int 2 k \<le> a then k else k - 1)"

definition toDouble :: "rat \<Rightarrow> jsnum" where
  "toDouble q =
     (if q = 0 then Fin 0
      else let a = \<bar>q\<bar>;
               e = max (floorLog2 a) (- 1022);
               ulp = power_int 2 (e - 52);
               r = of_int (roundTiesToEven (a / ulp)) * ulp
           in if 2 ^ 1024 \<le> r then (if 0 < q then PosInf else NegInf)
              else Fin (if 0 < q then r else - r))"

definition unsignedLiteral :: "string \<Rightarrow> jsnum" where
  "unsignedLiteral u =
     (if u = ''Infinity'' then PosInf
      else case unsignedDecimal u of None \<Rightarrow> NaN | Some q \<Rightarrow> toDouble q)"

fun negate :: "jsnum \<Rightarrow> jsnum" where
  "negate NaN = NaN"
| "negate PosInf = NegInf"
| "negate NegInf = PosInf"
| "negate (Fin q) = Fin (- q)"

definition StringToNumber :: "string \<Rightarrow> jsnum" where
  "StringToNumber s =
     (let t = trim s
      in case t of
           [] \<Rightarrow> Fin 0
         | c # r \<Rightarrow>
             (case nonDecimal t of
                Some n \<Rightarrow> toDouble (of_int n)
              | None \<Rightarrow>
                  if c = CHR ''+'' then unsignedLiteral r
                  else if c = CHR ''-'' then negate (unsignedLiteral r)
                  else unsignedLiteral t))"

text \<open>\<^verbatim>\<open>Number(x)\<close>: \<^verbatim>\<open>undefined\<close> is NaN, \<^verbatim>\<open>true\<close> is 1, \<^verbatim>\<open>false\<close> is 0.\<close>

fun Number :: "jsval option \<Rightarrow> jsnum" where
  "Number None = NaN"
| "Number (Some (Str s)) = StringToNumber s"
| "Number (Some (Num n)) = n"
| "Number (Some (Bool b)) = Fin (if b then 1 else 0)"

text \<open>Comparison of numbers: every comparison with NaN is false.\<close>

fun num_less :: "jsnum \<Rightarrow> jsnum \<Rightarrow> bool" where
  "num_less NaN _ = False"
| "num_less _ NaN = False"
| "num_less PosInf _ = False"
| "num_less _ NegInf = False"
| "num_less NegInf _ = True"
| "num_less _ PosInf = True"
| "num_less (Fin a) (Fin b) = (a < b)"

section \<open>Regular expressions\<close>

text \<open>
  The patterns of the source are anchored (\<^verbatim>\<open>^...$\<close>, no flags) sequences of character
  classes, each with a repetition count. \<^verbatim>\<open>RegExp.prototype.test\<close> on such a pattern
  holds when the whole string splits into runs that fit the classes and counts.
\<close>

datatype atom = Lit char | Range char char | WhiteSpace

datatype cls = OneOf "atom list" | NoneOf "atom list"

datatype piece = Rep cls nat "nat option"

type_synonym regex = "piece list"

fun atom_has :: "atom \<Rightarrow> char \<Rightarrow> bool" where
  "atom_has (Lit a) c = (c = a)"
| "atom_has (Range lo hi) c = ((of_char lo :: nat) \<le> of_char c \<and> (of_char c :: nat) \<le> of_char hi)"
| "atom_has WhiteSpace c = isWhiteSpace c"

fun cls_has :: "cls \<Rightarrow> char \<Rightarrow> bool" where
  "cls_has (OneOf as) c = list_ex (\<lambda>a. atom_has a c) as"
| "cls_has (NoneOf as) c = (\<not> list_ex (\<lambda>a. atom_has a c) as)"

fun RegExp_test :: "regex \<Rightarrow> string \<Rightarrow> bool" where
  "RegExp_test [] s = (s = [])"
| "RegExp_test (Rep c lo hi # ps) s =
     list_ex (\<lambda>n. list_all (cls_has c) (take n s) \<and> RegExp_test ps (drop n s))
       [lo ..< Suc (case hi of None \<Rightarrow> length s | Some h \<Rightarrow> min h (length s))]"

abbreviation One :: "cls \<Rightarrow> piece" where "One c \<equiv> Rep c 1 (Some 1)"
abbreviation Opt :: "cls \<Rightarrow> piece" where "Opt c \<equiv> Rep c 0 (Some 1)"
abbreviation Plus :: "cls \<Rightarrow> piece" where "Plus c \<equiv> Rep c 1 None"

text \<open>\<^verbatim>\<open>/^[^\s@]+@[^\s@]+\.[^\s@]+$/\<close>\<close>

definition emailRegex :: regex where
  "emailRegex =
     [Plus (NoneOf [WhiteSpace, Lit CHR ''@'']), One (OneOf [Lit CHR ''@'']),
      Plus (NoneOf [WhiteSpace, Lit CHR ''@'']), One (OneOf [Lit CHR ''.'']),
      Plus (NoneOf [WhiteSpace, Lit CHR ''@''])]"

text \<open>\<^verbatim>\<open>/^[\+]?[(]?[0-9]{3}[)]?[-\s\.]?[0-9]{3}[-\s\.]?[0-9]{4,6}$/\<close>\<close>

definition phoneRegex :: regex where
  "phoneRegex =
     [Opt (OneOf [Lit CHR ''+'']), Opt (OneOf [Lit CHR ''('']),
      Rep (OneOf [Range CHR ''0'' CHR ''9'']) 3 (Some 3),
      Opt (OneOf [Lit CHR '')'']),
      Opt (OneOf [Lit CHR ''-'', WhiteSpace, Lit CHR ''.'']),
      Rep (OneOf [Range CHR ''0'' CHR ''9'']) 3 (Some 3),
      Opt (OneOf [Lit CHR ''-'', WhiteSpace, Lit CHR ''.'']),
      Rep (OneOf [Range CHR ''0'' CHR ''9'']) 4 (Some 6)]"

section \<open>The validation library\<close>

text \<open>
  The schemas that \<^verbatim>\<open>createValidationSchema\<close> builds with zod, as a datatype, and zod's
  parsing of a value against them. The library is a dependency, not part of the
  repository; the model follows zod 3, whose \<^verbatim>\<open>errorMap\<close> parameter the source uses. A check carries its message when the source gives
  one. An issue carries the message it ends up with: the check's own, else the one of
  the schema's \<^verbatim>\<open>errorMap\<close>, else the library's default text (\<open>DefaultMessage\<close>).
\<close>

datatype message = Message string | DefaultMessage

datatype issue_code = invalid_type | invalid_string | too_small | too_big | custom

datatype ZodIssue = ZodIssue (code: issue_code) (message: message)

datatype ZodStringCheck =
    Email "string option"
  | Regex regex "string option"
  | Trim
  | MinLength nat "string option"

datatype ZodNumberCheck =
    Min rat "string option"
  | Max rat "string option"

datatype ZodType =
    ZodString "ZodStringCheck list"
  | ZodNumber (coerce: bool) (errorMap: "string option") "ZodNumberCheck list"
  | ZodBoolean
  | ZodOptional ZodType
  | ZodEffects ZodType "jsval option \<Rightarrow> bool" "string option"

text \<open>
  What parsing returns: the value with the issues found (none: valid), or an abort,
  after which nothing further is checked.
\<close>

datatype ParseReturn = Parsed "jsval option" "ZodIssue list" | Aborted "ZodIssue list"

fun issues :: "ParseReturn \<Rightarrow> ZodIssue list" where
  "issues (Parsed v is) = is"
| "issues (Aborted is) = is"

fun parsedValue :: "ParseReturn \<Rightarrow> jsval option" where
  "parsedValue (Parsed v is) = v"
| "parsedValue (Aborted is) = None"

definition resolve :: "string option \<Rightarrow> string option \<Rightarrow> message" where
  "resolve own schemaMap =
     (case own of
        Some m \<Rightarrow> Message m
      | None \<Rightarrow> (case schemaMap of Some m \<Rightarrow> Message m | None \<Rightarrow> DefaultMessage))"

text \<open>
  The checks of a string schema run in order on the data, which \<^verbatim>\<open>trim\<close> replaces.
  The library's own email pattern is not part of this repository: it is the
  parameter \<open>isEmail\<close>.
\<close>

fun string_check :: "(string \<Rightarrow> bool) \<Rightarrow> string \<times> ZodIssue list \<Rightarrow> ZodStringCheck \<Rightarrow> string \<times> ZodIssue list" where
  "string_check isEmail (d, is) (Email m) =
     (if isEmail d then (d, is) else (d, is @ [ZodIssue invalid_string (resolve m None)]))"
| "string_check isEmail (d, is) (Regex r m) =
     (if RegExp_test r d then (d, is) else (d, is @ [ZodIssue invalid_string (resolve m None)]))"
| "string_check isEmail (d, is) Trim = (trim d, is)"
| "string_check isEmail (d, is) (MinLength n m) =
     (if length d < n then (d, is @ [ZodIssue too_small (resolve m None)]) else (d, is))"

fun number_check :: "string option \<Rightarrow> jsnum \<Rightarrow> ZodNumberCheck \<Rightarrow> ZodIssue list" where
  "number_check em x (Min b m) = (if num_less x (Fin b) then [ZodIssue too_small (resolve m em)] else [])"
| "number_check em x (Max b m) = (if num_less (Fin b) x then [ZodIssue too_big (resolve m em)] else [])"

fun zparse :: "(string \<Rightarrow> bool) \<Rightarrow> ZodType \<Rightarrow> jsval option \<Rightarrow> ParseReturn" where
  "zparse isEmail (ZodString checks) v =
     (case v of
        Some (Str s) \<Rightarrow>
          (let (d, is) = foldl (string_check isEmail) (s, []) checks in Parsed (Some (Str d)) is)
      | _ \<Rightarrow> Aborted [ZodIssue invalid_type DefaultMessage])"
| "zparse isEmail (ZodNumber co em checks) v =
     (case (if co then Some (Num (Number v)) else v) of
        Some (Num x) \<Rightarrow>
          if x = NaN then Aborted [ZodIssue invalid_type (resolve None em)]
          else Parsed (Some (Num x)) (concat (map (number_check em x) checks))
      | _ \<Rightarrow> Aborted [ZodIssue invalid_type (resolve None em)])"
| "zparse isEmail ZodBoolean v =
     (case v of
        Some (Bool b) \<Rightarrow> Parsed v []
      | _ \<Rightarrow> Aborted [ZodIssue invalid_type DefaultMessage])"
| "zparse isEmail (ZodOptional t) v =
     (case v of None \<Rightarrow> Parsed None [] | Some _ \<Rightarrow> zparse isEmail t v)"
| "zparse isEmail (ZodEffects t refinement m) v =
     (case zparse isEmail t v of
        Aborted is \<Rightarrow> Aborted is
      | Parsed out is \<Rightarrow>
          if refinement out then Parsed out is
          else Parsed out (is @ [ZodIssue custom (resolve m None)]))"

text \<open>
  \<^verbatim>\<open>z.object(shape)\<close> parses the entry of every key of the shape (an absent entry is
  parsed as \<^verbatim>\<open>undefined\<close>) and drops the keys the shape does not have. The result
  is a success, with the parsed values, exactly when no key has an issue.
\<close>

type_synonym shape = "(string \<times> ZodType) list"

definition object_issues :: "(string \<Rightarrow> bool) \<Rightarrow> shape \<Rightarrow> (string \<rightharpoonup> jsval) \<Rightarrow> (string \<times> ZodIssue list) list" where
  "object_issues isEmail shape data = map (\<lambda>(k, t). (k, issues (zparse isEmail t (data k)))) shape"

definition object_value :: "(string \<Rightarrow> bool) \<Rightarrow> shape \<Rightarrow> (string \<rightharpoonup> jsval) \<Rightarrow> (string \<rightharpoonup> jsval)" where
  "object_value isEmail shape data =
     (\<lambda>k. case map_of shape k of None \<Rightarrow> None | Some t \<Rightarrow> parsedValue (zparse isEmail t (data k)))"

text \<open>
  \<^verbatim>\<open>zodResolver(schema)\<close>: the parsed values and no errors, or no values and, for each
  key with issues, its first issue.
\<close>

definition zodResolver :: "(string \<Rightarrow> bool) \<Rightarrow> shape \<Rightarrow> (string \<rightharpoonup> jsval) \<Rightarrow> (string \<rightharpoonup> jsval) option \<times> (string \<rightharpoonup> ZodIssue)" where
  "zodResolver isEmail shape data =
     (let found = object_issues isEmail shape data
      in if list_all (\<lambda>(k, is). is = []) found
         then (Some (object_value isEmail shape data), Map.empty)
         else (None, \<lambda>k. case map_of found k of None \<Rightarrow> None | Some [] \<Rightarrow> None | Some (i # _) \<Rightarrow> Some i))"

section \<open>Field descriptors\<close>

text \<open>
  \<^verbatim>\<open>type FormField\<close>. A descriptor from the server may carry further properties
  (\<^verbatim>\<open>rowIndex\<close>, \<^verbatim>\<open>variant\<close>, \<^verbatim>\<open>checked\<close>): they are the extension part of the record,
  which a record update leaves alone, as the object spread \<^verbatim>\<open>{...field, value: v}\<close>
  does. Names are plain property keys.
\<close>

record FormField =
  name :: string
  type :: string
  label :: "string option"
  "value" :: "jsval option"
  placeholder :: "string option"
  required :: "bool option"
  disabled :: "bool option"
  description :: "string option"

section \<open>The schema builder\<close>

text \<open>The rule for one descriptor: the \<^verbatim>\<open>switch (field.type)\<close> of \<^verbatim>\<open>createValidationSchema\<close>.\<close>

definition validator :: "'a FormField_scheme \<Rightarrow> ZodType" where
  "validator field =
     (if type field = ''email'' then
        (if required field = Some True
         then ZodString [Email (Some ''Invalid email format'')]
         else ZodOptional (ZodString [Email (Some ''Invalid email format'')]))
      else if type field = ''number'' then
        (if name field = ''age''
         then (if required field = Some True
               then ZodNumber True (Some ''Age must be a number'')
                      [Min 1 (Some ''Age must be at least 1''), Max 120 (Some ''Age must be less than 120'')]
               else ZodOptional (ZodNumber True None [Min 1 None, Max 120 None]))
         else (if required field = Some True
               then ZodNumber True None [Min 1 None, Max 100 None]
               else ZodOptional (ZodNumber True None [Min 1 None, Max 100 None])))
      else if type field = ''tel'' then
        (if required field = Some True
         then ZodString [Regex phoneRegex (Some ''Invalid phone number format'')]
         else ZodOptional (ZodString [Regex phoneRegex (Some ''Invalid phone number format'')]))
      else if type field = ''checkbox'' then ZodOptional ZodBoolean
      else
        (if required field = Some True
         then ZodString [Trim, MinLength 1
                (Some ((case label field of
                          None \<Rightarrow> name field
                        | Some l \<Rightarrow> if l = [] then name field else l) @ '' is required''))]
         else ZodOptional (ZodString [])))"

text \<open>
  The callback of the \<^verbatim>\<open>contact\<close> rule. The source types it on strings, and the
  string schema before it passes nothing else on.
\<close>

definition contactRefinement :: "jsval option \<Rightarrow> bool" where
  "contactRefinement v =
     (case v of
        Some (Str s) \<Rightarrow> RegExp_test emailRegex s \<or> RegExp_test phoneRegex s
      | _ \<Rightarrow> False)"

definition contactRule :: ZodType where
  "contactRule = ZodEffects (ZodString []) contactRefinement (Some ''Please enter a valid email or phone number'')"

text \<open>
  \<^verbatim>\<open>schemaFields\<close> is an object used as a dictionary: assigning to a key that is there
  replaces its rule, assigning to a new key adds it.
\<close>

definition createValidationSchema :: "'a FormField_scheme list \<Rightarrow> shape" where
  "createValidationSchema flds =
     AList.update ''contact'' contactRule
       (foldl (\<lambda>schemaFields field. AList.update (name field) (validator field) schemaFields) [] flds)"

section \<open>Default values\<close>

text \<open>The \<^verbatim>\<open>defaultValues\<close> memo of the component; \<open>None\<close> is \<^verbatim>\<open>formFields\<close> not yet fetched.\<close>

definition defaultValues :: "'a FormField_scheme list option \<Rightarrow> (string \<rightharpoonup> jsval)" where
  "defaultValues formFields =
     (case formFields of
        None \<Rightarrow> Map.empty
      | Some flds \<Rightarrow>
          foldl (\<lambda>acc field.
                   acc(name field \<mapsto>
                         (if type field = ''checkbox'' then Bool (truthy (value field))
                          else js_or (value field) (Str []))))
            Map.empty flds)"

section \<open>The form controller\<close>

text \<open>
  The state of one rendering of \<^verbatim>\<open>Form\<close>: the query's data and flags, the live values and
  errors held by the form library, and the lists handed to \<^verbatim>\<open>mutation.mutate\<close> so far
  (each is the body of one replace request to the server).
\<close>

record 'a FormState =
  formFields :: "'a FormField_scheme list option"
  isPending :: bool
  isError :: bool
  formValues :: "string \<rightharpoonup> jsval"
  errors :: "string \<rightharpoonup> ZodIssue"
  mutations :: "'a FormField_scheme list list"

definition validationSchema :: "'a FormField_scheme list option \<Rightarrow> shape option" where
  "validationSchema fs = map_option createValidationSchema fs"

definition onSubmit :: "(string \<rightharpoonup> jsval) \<Rightarrow> 'a FormState \<Rightarrow> 'a FormState" where
  "onSubmit data st =
     (let updatedFields =
            (case formFields st of
               None \<Rightarrow> []
             | Some flds \<Rightarrow> map (\<lambda>field. field\<lparr>value := data (name field)\<rparr>) flds)
      in st\<lparr>mutations := mutations st @ [updatedFields]\<rparr>)"

text \<open>
  \<^verbatim>\<open>handleSubmit(onSubmit)\<close> of the form library: it runs the resolver, if there is
  one, on the live values, stores the errors, and calls \<^verbatim>\<open>onSubmit\<close> with the resolver's
  values only when there is no error.
\<close>

definition handleSubmit :: "(string \<Rightarrow> bool) \<Rightarrow> 'a FormState \<Rightarrow> 'a FormState" where
  "handleSubmit isEmail st =
     (case validationSchema (formFields st) of
        None \<Rightarrow> onSubmit (formValues st) st
      | Some schema \<Rightarrow>
          (case zodResolver isEmail schema (formValues st) of
             (Some data, errs) \<Rightarrow> onSubmit data (st\<lparr>errors := errs\<rparr>)
           | (None, errs) \<Rightarrow> st\<lparr>errors := errs\<rparr>))"

subsection \<open>What is rendered\<close>

text \<open>
  \<^verbatim>\<open>showPhoneEmail = age && Number(age) > 18\<close>, where \<^verbatim>\<open>age = watch('age')\<close>; the markup
  tests it for truth.
\<close>

definition showPhoneEmail :: "(string \<rightharpoonup> jsval) \<Rightarrow> bool" where
  "showPhoneEmail values =
     (let age = values ''age'' in truthy age \<and> num_less (Fin 18) (Number age))"

datatype 'a control = FieldControl "'a FormField_scheme" | ContactControl

datatype 'a view = Loading | LoadError | FormView "'a control list"

definition Form :: "'a FormState \<Rightarrow> 'a view" where
  "Form st =
     (if isPending st then Loading
      else if isError st then LoadError
      else FormView
             ((case formFields st of
                 None \<Rightarrow> []
               | Some flds \<Rightarrow> map FieldControl (filter (\<lambda>field. name field \<noteq> ''contact'') flds))
              @ (if showPhoneEmail (formValues st) then [ContactControl] else [])))"

subsection \<open>Acceptance\<close>

text \<open>A rule accepts a value when parsing it leaves no issue (\<^verbatim>\<open>safeParse(v).success\<close>).\<close>

definition success :: "(string \<Rightarrow> bool) \<Rightarrow> ZodType \<Rightarrow> jsval option \<Rightarrow> bool" where
  "success isEmail t v = (issues (zparse isEmail t v) = [])"

section \<open>The descriptors the server starts with\<close>

text \<open>
  The list of the API route (\<^verbatim>\<open>let formFields = [...]\<close>), with the three properties it
  carries beyond \<^verbatim>\<open>FormField\<close>, and further descriptors used as examples below.
\<close>

record ApiField = FormField +
  checked :: "bool option"
  rowIndex :: int
  variant :: string

definition username_field :: ApiField where
  "username_field =
     \<lparr>name = ''Username'', type = ''text'', label = None, value = Some (Str []),
      placeholder = Some ''shadcn'', required = Some True, disabled = Some False,
      description = Some ''This is your public display name'',
      checked = Some True, rowIndex = 0, variant = ''Input''\<rparr>"

definition age_field :: ApiField where
  "age_field =
     \<lparr>name = ''age'', type = ''number'', label = Some ''Age'', value = Some (Num (Fin 18)),
      placeholder = Some ''Enter your age'', required = Some True, disabled = None,
      description = None, checked = None, rowIndex = 1, variant = ''Input''\<rparr>"

definition terms_field :: ApiField where
  "terms_field =
     \<lparr>name = ''terms_001'', type = ''checkbox'', label = Some ''Agree to terms'', value = None,
      placeholder = None, required = Some True, disabled = None, description = None,
      checked = Some False, rowIndex = 2, variant = ''Checkbox''\<rparr>"

definition apiFormFields :: "ApiField list" where
  "apiFormFields = [username_field, age_field, terms_field]"






subsection \<open>Example states\<close>

text \<open>
  The form once the server's list has arrived, with the given live values; the live
  values the form starts with; and the form filled in so that it can be submitted.
\<close>

definition ready :: "(string \<rightharpoonup> jsval) \<Rightarrow> unit ApiField_ext FormState" where
  "ready vals =
     \<lparr>formFields = Some apiFormFields, isPending = False, isError = False,
      formValues = vals, errors = Map.empty, mutations = []\<rparr>"

definition initialValues :: "string \<rightharpoonup> jsval" where
  "initialValues = defaultValues (Some apiFormFields)"


definition hiddenContactValues :: "string \<rightharpoonup> jsval" where
  "hiddenContactValues = initialValues(''Username'' \<mapsto> Str ''shadcn'')"

text \<open>A fetched descriptor that is itself named \<open>contact\<close>.\<close>

definition contact_field :: ApiField where
  "contact_field =
     \<lparr>name = ''contact'', type = ''text'', label = None, value = Some (Str ''user@example.com''),
      placeholder = None, required = None, disabled = None, description = None,
      checked = None, rowIndex = 3, variant = ''Input''\<rparr>"

section \<open>Default values: properties\<close>






section \<open>The schema builder: properties\<close>


lemma schema_fold_distinct:
  "distinct (map fst al) \<Longrightarrow>
   distinct (map fst (foldl (\<lambda>schemaFields field. AList.update (name field) (g field) schemaFields) al fs))"
  by (induction fs arbitrary: al) (auto simp: AList.distinct_update)





lemma schema_distinct: "distinct (map fst (createValidationSchema fs))"
  by (simp add: createValidationSchema_def AList.distinct_update schema_fold_distinct)


lemma schema_contact: "map_of (createValidationSchema fs) ''contact'' = Some contactRule"
  by (simp add: createValidationSchema_def AList.update_conv')






section \<open>The rules: properties\<close>



subsection \<open>Numbers\<close>





lemma number_of_abc: "Number (Some (Str ''abc'')) = NaN"
  by code_simp




subsection \<open>Checkboxes\<close>

text \<open>
  C9. For every descriptor of type \<open>checkbox\<close>, whatever its \<open>required\<close> flag, the rule
  is the optional boolean, and it accepts \<open>false\<close> (unchecked), the absent value and
  \<open>true\<close>.
\<close>

theorem checkbox_rule_optional:
  assumes "type f = ''checkbox''"
  shows "validator f = ZodOptional ZodBoolean
       \<and> success isEmail (validator f) (Some (Bool False))
       \<and> success isEmail (validator f) None
       \<and> success isEmail (validator f) (Some (Bool True))"
  using assms by (simp add: validator_def success_def)

text \<open>The server's checkbox is required, and unchecked or absent passes.\<close>

theorem checkbox_rule_optional_witness:
  "type terms_field = ''checkbox'' \<and> required terms_field = Some True
   \<and> success (RegExp_test emailRegex) (validator terms_field) (Some (Bool False))
   \<and> success (RegExp_test emailRegex) (validator terms_field) None"
proof -
  have t: "type terms_field = ''checkbox''" by (simp add: terms_field_def)
  have r: "required terms_field = Some True" by (simp add: terms_field_def)
  from checkbox_rule_optional [OF t, of "RegExp_test emailRegex"] t r show ?thesis by blast
qed

subsection \<open>The contact rule\<close>

lemma contact_parse_string:
  "zparse isEmail contactRule (Some (Str s)) =
     (if RegExp_test emailRegex s \<or> RegExp_test phoneRegex s then Parsed (Some (Str s)) []
      else Parsed (Some (Str s)) [ZodIssue custom (Message ''Please enter a valid email or phone number'')])"
  by (simp add: contactRule_def contactRefinement_def resolve_def)

lemma contact_parse_other:
  "(\<And>s. v \<noteq> Some (Str s)) \<Longrightarrow> zparse isEmail contactRule v = Aborted [ZodIssue invalid_type DefaultMessage]"
  by (cases v; cases "the v") (auto simp: contactRule_def)

lemma empty_no_email: "\<not> RegExp_test emailRegex []"
  by (simp add: emailRegex_def)

lemma empty_no_phone: "\<not> RegExp_test phoneRegex []"
  by (simp add: phoneRegex_def)

lemma email_example: "RegExp_test emailRegex ''user@example.com''"
  by code_simp

lemma phone_example: "RegExp_test phoneRegex ''555-123-4567''"
  by code_simp

lemma not_valid_example:
  "\<not> RegExp_test emailRegex ''not-valid''" "\<not> RegExp_test phoneRegex ''not-valid''"
  by code_simp+

text \<open>
  C8, as amended. Every built ruleset has the synthetic rule at \<open>contact\<close>. The rule
  accepts a value exactly when it is a string that matches the email pattern or the
  phone pattern. A string that matches neither fails with
  "Please enter a valid email or phone number". A value that is no string (the absent
  value included) is stopped by the string type check before the patterns are tried,
  and fails with the library's default message instead.
\<close>

theorem contact_rule:
  "map_of (createValidationSchema fs) ''contact'' = Some contactRule
   \<and> (success isEmail contactRule v \<longleftrightarrow>
        (\<exists>s. v = Some (Str s) \<and> (RegExp_test emailRegex s \<or> RegExp_test phoneRegex s)))
   \<and> (\<forall>s. v = Some (Str s) \<and> \<not> RegExp_test emailRegex s \<and> \<not> RegExp_test phoneRegex s \<longrightarrow>
        issues (zparse isEmail contactRule v)
          = [ZodIssue custom (Message ''Please enter a valid email or phone number'')])
   \<and> ((\<forall>s. v \<noteq> Some (Str s)) \<longrightarrow>
        zparse isEmail contactRule v = Aborted [ZodIssue invalid_type DefaultMessage])"
proof (cases "\<exists>s. v = Some (Str s)")
  case True
  then obtain s where "v = Some (Str s)" by blast
  then show ?thesis
    by (simp add: schema_contact success_def contact_parse_string)
next
  case False
  then have "zparse isEmail contactRule v = Aborted [ZodIssue invalid_type DefaultMessage]"
    by (simp add: contact_parse_other)
  with False show ?thesis
    by (simp add: schema_contact success_def)
qed

text \<open>The three examples: an email address and a phone number pass, \<open>not-valid\<close> fails.\<close>

theorem contact_rule_witness:
  "success (RegExp_test emailRegex) contactRule (Some (Str ''user@example.com''))
   \<and> success (RegExp_test emailRegex) contactRule (Some (Str ''555-123-4567''))
   \<and> issues (zparse (RegExp_test emailRegex) contactRule (Some (Str ''not-valid'')))
        = [ZodIssue custom (Message ''Please enter a valid email or phone number'')]"
  using contact_rule [of "[] :: FormField list" "RegExp_test emailRegex" "Some (Str ''user@example.com'')"]
    contact_rule [of "[] :: FormField list" "RegExp_test emailRegex" "Some (Str ''555-123-4567'')"]
    contact_rule [of "[] :: FormField list" "RegExp_test emailRegex" "Some (Str ''not-valid'')"]
    email_example phone_example not_valid_example
  by simp

text \<open>
  C8 as stated fails: the absent value matches neither pattern, and it fails with the
  default message of the type check, not with the message of the rule.
\<close>

theorem contact_rule_absent_counterexample:
  "issues (zparse (RegExp_test emailRegex) contactRule None) = [ZodIssue invalid_type DefaultMessage]"
  by (simp add: contactRule_def)

section \<open>Submitting: properties\<close>

lemma object_issues_lookup:
  "map_of (object_issues isEmail shape data) k
     = map_option (\<lambda>t. issues (zparse isEmail t (data k))) (map_of shape k)"
  by (induction shape) (auto simp: object_issues_def)

lemma object_issues_all:
  "list_all (\<lambda>(k, is). is = []) (object_issues isEmail shape data)
     = (\<forall>(k, t) \<in> set shape. success isEmail t (data k))"
  by (auto simp: object_issues_def list_all_iff success_def)


lemma resolver_failure:
  assumes "(k, t) \<in> set shape" and "\<not> success isEmail t (data k)"
  shows "fst (zodResolver isEmail shape data) = None"
proof -
  from assms have "\<not> list_all (\<lambda>(k, is). is = []) (object_issues isEmail shape data)"
    unfolding object_issues_all by blast
  then show ?thesis by (simp add: zodResolver_def)
qed

lemma resolver_error:
  assumes "distinct (map fst shape)" and "(k, t) \<in> set shape"
    and "issues (zparse isEmail t (data k)) = i # rest"
  shows "snd (zodResolver isEmail shape data) k = Some i"
proof -
  from assms(1,2) have m: "map_of shape k = Some t" by simp
  from assms(2,3) have "\<not> success isEmail t (data k)" by (simp add: success_def)
  with assms(2) have "\<not> list_all (\<lambda>(k, is). is = []) (object_issues isEmail shape data)"
    unfolding object_issues_all by blast
  then show ?thesis
    using m assms(3) by (simp add: zodResolver_def object_issues_lookup)
qed

lemma handleSubmit_invalid:
  assumes "formFields st = Some fs"
    and "fst (zodResolver isEmail (createValidationSchema fs) (formValues st)) = None"
  shows "handleSubmit isEmail st
           = st\<lparr>errors := snd (zodResolver isEmail (createValidationSchema fs) (formValues st))\<rparr>"
  using assms
  by (cases "zodResolver isEmail (createValidationSchema fs) (formValues st)")
    (simp add: handleSubmit_def validationSchema_def)



lemma initial_values:
  "initialValues ''Username'' = Some (Str [])"
  "initialValues ''age'' = Some (Num (Fin 18))"
  "initialValues ''terms_001'' = Some (Bool False)"
  "initialValues ''contact'' = None"
  by (simp_all add: initialValues_def defaultValues_def apiFormFields_def username_field_def
      age_field_def terms_field_def)



lemma schema_contact_mem: "(''contact'', contactRule) \<in> set (createValidationSchema fs)"
  using schema_contact [of fs] by (rule map_of_SomeD)

lemma contact_absent_issue:
  "issues (zparse isEmail contactRule None) = [ZodIssue invalid_type DefaultMessage]"
  by (simp add: contactRule_def)

lemma contact_empty_issue:
  "issues (zparse isEmail contactRule (Some (Str [])))
     = [ZodIssue custom (Message ''Please enter a valid email or phone number'')]"
  by (simp add: contact_parse_string empty_no_email empty_no_phone)

text \<open>
  C2, as amended. Take the form with its descriptors fetched and any live values in
  which \<open>contact\<close> is absent or the empty string, whatever the value of \<open>age\<close> and so
  whether or not the contact field is shown. Then validating the live values against
  the built ruleset fails, the error recorded for \<open>contact\<close> is the refinement's
  "Please enter a valid email or phone number" when \<open>contact\<close> is the empty string and
  the string type check's default message when \<open>contact\<close> is absent (the refinement is
  not reached then), and submitting hands nothing to the mutation.
\<close>

theorem contact_always_validated:
  assumes "formFields st = Some fs"
    and "formValues st ''contact'' = None \<or> formValues st ''contact'' = Some (Str [])"
  shows "fst (zodResolver isEmail (createValidationSchema fs) (formValues st)) = None
       \<and> errors (handleSubmit isEmail st) ''contact''
           = Some (if formValues st ''contact'' = None
                   then ZodIssue invalid_type DefaultMessage
                   else ZodIssue custom (Message ''Please enter a valid email or phone number''))
       \<and> mutations (handleSubmit isEmail st) = mutations st"
proof -
  let ?S = "createValidationSchema fs"
  let ?i = "if formValues st ''contact'' = None
            then ZodIssue invalid_type DefaultMessage
            else ZodIssue custom (Message ''Please enter a valid email or phone number'')"
  have i: "issues (zparse isEmail contactRule (formValues st ''contact'')) = ?i # []"
    using assms(2) by (auto simp: contact_absent_issue contact_empty_issue)
  then have n: "\<not> success isEmail contactRule (formValues st ''contact'')"
    by (simp add: success_def)
  have none: "fst (zodResolver isEmail ?S (formValues st)) = None"
    using schema_contact_mem n by (rule resolver_failure)
  have "snd (zodResolver isEmail ?S (formValues st)) ''contact'' = Some ?i"
    using schema_distinct schema_contact_mem i by (rule resolver_error)
  with none show ?thesis
    by (simp add: handleSubmit_invalid [OF assms(1) none])
qed

text \<open>
  The server's form with a user name typed in: the age is 18, the contact field is
  hidden and its value absent, and submitting is blocked by an error on \<open>contact\<close>.
\<close>

theorem contact_always_validated_witness:
  "formFields (ready hiddenContactValues) = Some apiFormFields
   \<and> hiddenContactValues ''age'' = Some (Num (Fin 18))
   \<and> \<not> showPhoneEmail hiddenContactValues
   \<and> hiddenContactValues ''contact'' = None
   \<and> errors (handleSubmit (RegExp_test emailRegex) (ready hiddenContactValues)) ''contact''
        = Some (ZodIssue invalid_type DefaultMessage)
   \<and> mutations (handleSubmit (RegExp_test emailRegex) (ready hiddenContactValues)) = []"
proof -
  have f: "formFields (ready hiddenContactValues) = Some apiFormFields" by (simp add: ready_def)
  have c: "formValues (ready hiddenContactValues) ''contact'' = None"
    by (simp add: ready_def hiddenContactValues_def initial_values)
  have a: "hiddenContactValues ''age'' = Some (Num (Fin 18))"
    by (simp add: hiddenContactValues_def initial_values)
  then have s: "\<not> showPhoneEmail hiddenContactValues"
    by (simp add: showPhoneEmail_def)
  from contact_always_validated [OF f, of "RegExp_test emailRegex"] c f a s show ?thesis
    by (simp add: ready_def)
qed

text \<open>
  C2 as stated fails in its account of what rejects an absent \<open>contact\<close>: in the live
  values the form starts with, \<open>contact\<close> is absent, and the only issue of its rule, the
  one the resolver reports, is the type check's, not the refinement's.
\<close>

theorem contact_absent_not_refinement_counterexample:
  "initialValues ''contact'' = None
   \<and> issues (zparse (RegExp_test emailRegex) contactRule (initialValues ''contact''))
        = [ZodIssue invalid_type DefaultMessage]
   \<and> snd (zodResolver (RegExp_test emailRegex) (createValidationSchema apiFormFields) initialValues) ''contact''
        = Some (ZodIssue invalid_type DefaultMessage)"
proof -
  have i: "issues (zparse (RegExp_test emailRegex) contactRule (initialValues ''contact''))
             = [ZodIssue invalid_type DefaultMessage]"
    by (simp add: initial_values contact_absent_issue)
  have "snd (zodResolver (RegExp_test emailRegex) (createValidationSchema apiFormFields) initialValues) ''contact''
          = Some (ZodIssue invalid_type DefaultMessage)"
    using schema_distinct schema_contact_mem i by (rule resolver_error)
  with i show ?thesis by (simp add: initial_values)
qed





lemma number_of_19: "StringToNumber ''19'' = Fin 19"
  by code_simp

lemma number_of_18: "StringToNumber ''18'' = Fin 18"
  by code_simp




section \<open>Optional fields and the empty string\<close>





section \<open>What is rendered: properties\<close>

lemma num_less_18: "num_less (Fin 18) x = (x = PosInf \<or> (\<exists>q. x = Fin q \<and> 18 < q))"
  by (cases x) auto

text \<open>
  C7. Whenever the form is shown (the query neither pending nor failed), the contact
  control is among the rendered controls exactly when the live value of \<open>age\<close> is
  truthy and its coercion to a number is strictly greater than 18, and no control is
  rendered for a fetched descriptor named \<open>contact\<close>.
\<close>

theorem contact_visibility:
  assumes "Form st = FormView cs"
  shows "(ContactControl \<in> set cs \<longleftrightarrow>
            truthy (formValues st ''age'')
            \<and> (Number (formValues st ''age'') = PosInf
                \<or> (\<exists>q. Number (formValues st ''age'') = Fin q \<and> 18 < q)))
       \<and> (\<forall>f. name f = ''contact'' \<longrightarrow> FieldControl f \<notin> set cs)"
proof -
  from assms have cs: "cs =
      (case formFields st of
         None \<Rightarrow> []
       | Some flds \<Rightarrow> map FieldControl (filter (\<lambda>field. name field \<noteq> ''contact'') flds))
      @ (if showPhoneEmail (formValues st) then [ContactControl] else [])"
    by (auto simp: Form_def split: if_splits)
  have "ContactControl \<in> set cs \<longleftrightarrow> showPhoneEmail (formValues st)"
    unfolding cs by (auto split: option.splits)
  moreover have "\<forall>f. name f = ''contact'' \<longrightarrow> FieldControl f \<notin> set cs"
    unfolding cs by (auto split: option.splits)
  ultimately show ?thesis
    by (simp add: showPhoneEmail_def Let_def num_less_18)
qed

text \<open>
  The server's form: the contact control is there for the age 19, and not for 18,
  for \<open>abc\<close> or for no age. With a fetched descriptor named \<open>contact\<close> and the age 18,
  nothing is rendered for \<open>contact\<close> at all.
\<close>

theorem contact_visibility_witness:
  "Form (ready [''age'' \<mapsto> Str ''19'']) = FormView (map FieldControl apiFormFields @ [ContactControl])
   \<and> Form (ready [''age'' \<mapsto> Str ''18'']) = FormView (map FieldControl apiFormFields)
   \<and> Form (ready [''age'' \<mapsto> Str ''abc'']) = FormView (map FieldControl apiFormFields)
   \<and> Form (ready Map.empty) = FormView (map FieldControl apiFormFields)
   \<and> Form ((ready [''age'' \<mapsto> Str ''18''])\<lparr>formFields := Some [age_field, contact_field]\<rparr>)
       = FormView [FieldControl age_field]"
proof -
  have n: "filter (\<lambda>field. name field \<noteq> ''contact'') apiFormFields = apiFormFields"
    by (simp add: apiFormFields_def username_field_def age_field_def terms_field_def)
  have f: "\<And>vals. Form (ready vals)
             = FormView (map FieldControl apiFormFields @ (if showPhoneEmail vals then [ContactControl] else []))"
    by (simp add: Form_def ready_def n)
  have g: "\<And>vals. Form ((ready vals)\<lparr>formFields := Some [age_field, contact_field]\<rparr>)
             = FormView ([FieldControl age_field] @ (if showPhoneEmail vals then [ContactControl] else []))"
    by (simp add: Form_def ready_def age_field_def contact_field_def)
  have c: "ContactControl \<notin> set (map FieldControl apiFormFields)" by auto
  have s19: "showPhoneEmail [''age'' \<mapsto> Str ''19'']"
    using contact_visibility [OF f, of "[''age'' \<mapsto> Str ''19'']"] c number_of_19
    by (simp add: ready_def)
  have s18: "\<not> showPhoneEmail [''age'' \<mapsto> Str ''18'']"
    using contact_visibility [OF f, of "[''age'' \<mapsto> Str ''18'']"] c number_of_18
    by (simp add: ready_def)
  have sabc: "\<not> showPhoneEmail [''age'' \<mapsto> Str ''abc'']"
    using contact_visibility [OF f, of "[''age'' \<mapsto> Str ''abc'']"] c number_of_abc
    by (simp add: ready_def)
  have snone: "\<not> showPhoneEmail Map.empty"
    using contact_visibility [OF f, of "Map.empty"] c
    by (simp add: ready_def)
  from s19 s18 sabc snone show ?thesis by (simp add: f g)
qed

end
